theory Spec2Isabelle
  imports Complex_Main
begin

section \<open>Strings and dynamic values of the host language\<close>

text \<open>
  A TypeScript string is a sequence of UTF-16 code units; \<open>length\<close>, \<open>slice\<close> and the
  regular expression engine all count code units. A string is therefore a list of
  code-unit numbers. Literals of the source are written as HOL strings and injected
  with \<open>js\<close> (every literal modelled here lies in Latin-1, where the byte of the HOL
  character is the code unit).
\<close>

type_synonym jsstring = "nat list"

definition js :: "string \<Rightarrow> jsstring" where
  "js s = map of_char s"

text \<open>
  Tool arguments are \<open>Record<string, unknown>\<close>. The summariser only asks two things
  of a field: its truthiness (\<open>a || b\<close>) and its string conversion (template
  literals, \<open>String(v)\<close>). \<open>JOther s\<close> stands for any other truthy value (object,
  array, non-integral number) whose string conversion is \<open>s\<close>.
\<close>

datatype jsval =
    JUndefined
  | JNull
  | JBool bool
  | JNum int
  | JStr jsstring
  | JOther jsstring

fun truthy :: "jsval \<Rightarrow> bool" where
  "truthy JUndefined = False"
| "truthy JNull = False"
| "truthy (JBool b) = b"
| "truthy (JNum n) = (n \<noteq> 0)"
| "truthy (JStr s) = (s \<noteq> [])"
| "truthy (JOther s) = True"

fun digit_char :: "nat \<Rightarrow> nat" where
  "digit_char d = 48 + d"

fun show_nat :: "nat \<Rightarrow> jsstring" where
  "show_nat n = (if n < 10 then [digit_char n] else show_nat (n div 10) @ [digit_char (n mod 10)])"

declare show_nat.simps [simp del]

definition show_int :: "int \<Rightarrow> jsstring" where
  "show_int i = (if i < 0 then js ''-'' @ show_nat (nat (- i)) else show_nat (nat i))"

fun toString :: "jsval \<Rightarrow> jsstring" where
  "toString JUndefined = js ''undefined''"
| "toString JNull = js ''null''"
| "toString (JBool b) = (if b then js ''true'' else js ''false'')"
| "toString (JNum n) = show_int n"
| "toString (JStr s) = s"
| "toString (JOther s) = s"

text \<open>\<open>a || b\<close> on values.\<close>

definition js_or :: "jsval \<Rightarrow> jsval \<Rightarrow> jsval" where
  "js_or a b = (if truthy a then a else b)"

type_synonym jsobject = "(jsstring \<times> jsval) list"

definition field :: "jsobject \<Rightarrow> string \<Rightarrow> jsval" where
  "field a k = (case map_of a (js k) of None \<Rightarrow> JUndefined | Some v \<Rightarrow> v)"

section \<open>The store: rows, tables and constants (store.ts)\<close>

datatype MindLogCategory = Stress | Confession | Ethics | Guidance | Session_summary

record MindLogEntry =
  log_id :: int
  category :: MindLogCategory
  payload :: jsobject
  log_session_key :: jsstring
  log_created_at :: int

record MindAction =
  action_id :: int
  tool_name :: jsstring
  summary :: jsstring
  args_snapshot :: jsobject
  session_key :: jsstring
  action_created_at :: int

text \<open>
  \<open>relevance_score\<close> is a SQLite \<open>REAL\<close> and a TypeScript \<open>number\<close>; it is modelled by
  an exact real, so that rounding is not part of the model. \<open>approved\<close> is the integer
  column the source declares.
\<close>

record MindLearning =
  learning_id :: int
  title :: jsstring
  content :: jsstring
  rationale :: jsstring
  relevance_score :: real
  activation_count :: int
  last_activated :: int
  approved :: int
  created_at :: int

record DreamResult =
  dream_id :: int
  days_analyzed :: int
  log_count :: int
  proposals :: jsstring
  dream_created_at :: int

record RejectedLearning =
  rejected_id :: int
  rejected_title :: jsstring
  rejected_content :: jsstring
  rejected_at :: int

definition DECAY_FACTOR :: real where
  "DECAY_FACTOR = 0.95"

definition MIN_RELEVANCE :: real where
  "MIN_RELEVANCE = 0.1"

definition REACTIVATION_BOOST :: real where
  "REACTIVATION_BOOST = 0.15"

record Principle =
  name :: string
  rule :: string

definition IMMUTABLE_PRINCIPLES :: "Principle list" where
  "IMMUTABLE_PRINCIPLES =
    [\<lparr>name = ''System Stability'',
      rule = ''Never execute commands that could lead to system instability, such as recursive deletions of system folders, infinite loops, or operations that exhaust system resources.''\<rparr>,
     \<lparr>name = ''Transparency & Consent'',
      rule = ''Always state your intention before running potentially destructive or complex operations. If an action is risky, explain the risk.''\<rparr>,
     \<lparr>name = ''Data Privacy'',
      rule = ''Do not share or exfiltrate private data from the host system to external endpoints unless explicitly requested for a specific task.''\<rparr>,
     \<lparr>name = ''Proactive Problem Solving'',
      rule = ''When a tool fails or an error occurs, analyze why and suggest a fix or try an alternative approach. Do not just report the error and wait.''\<rparr>,
     \<lparr>name = ''No Damage'',
      rule = ''The host system is your home. Guard it. Avoid modifying critical configuration files unless you are certain of the changes and have backed them up.''\<rparr>]"

text \<open>
  The database behind a \<open>MindStore\<close>: the five tables in rowid order, each with the
  \<open>AUTOINCREMENT\<close> counter SQLite keeps for it. \<open>failing\<close> is the condition of the
  storage layer (disk full, corruption, permission denial): while it holds, every
  statement the store prepares or runs throws. Nothing in the store catches such an
  exception (only \<open>close\<close> has a \<open>try\<close>), so it reaches the caller: operations return
  \<open>storage_error + (result \<times> store)\<close>, \<open>Inl\<close> being the exception.
\<close>

datatype storage_error = StorageFault

record MindStore =
  agentId :: jsstring
  mind_log :: "MindLogEntry list"
  mind_log_seq :: int
  mind_learnings :: "MindLearning list"
  mind_learnings_seq :: int
  mind_dreams :: "DreamResult list"
  mind_dreams_seq :: int
  mind_actions :: "MindAction list"
  mind_actions_seq :: int
  mind_rejected_learnings :: "RejectedLearning list"
  mind_rejected_learnings_seq :: int
  failing :: bool

text \<open>The store a constructor call on a new database file yields.\<close>

definition new_store :: "jsstring \<Rightarrow> MindStore" where
  "new_store a =
    \<lparr>agentId = a, mind_log = [], mind_log_seq = 0, mind_learnings = [],
     mind_learnings_seq = 0, mind_dreams = [], mind_dreams_seq = 0, mind_actions = [],
     mind_actions_seq = 0, mind_rejected_learnings = [], mind_rejected_learnings_seq = 0,
     failing = False\<rparr>"

text \<open>A statement's \<open>prepare\<close>/\<open>run\<close>/\<open>get\<close>/\<open>all\<close>: throws while the storage fails.\<close>

definition stmt :: "MindStore \<Rightarrow> 'a \<Rightarrow> storage_error + 'a" where
  "stmt s r = (if failing s then Inl StorageFault else Inr r)"

subsection \<open>Action summaries\<close>

definition TRIVIAL_TOOLS :: "jsstring list" where
  "TRIVIAL_TOOLS = map js
    [''mind_log_stress'', ''mind_confess_uncertainty'', ''mind_log_ethical_refusal'',
     ''mind_log_guidance'', ''mind_dream'', ''mind_get_learnings'',
     ''mind_approve_learning'', ''mind_reject_learning'', ''session_status'',
     ''memory_search'', ''memory_get'']"

definition truncate_str :: "jsstring \<Rightarrow> nat \<Rightarrow> jsstring" where
  "truncate_str s mx = (if length s > mx then take mx s @ js ''...'' else s)"

definition buildActionSummary :: "jsstring \<Rightarrow> jsobject \<Rightarrow> jsstring option" where
  "buildActionSummary toolName a =
    (if toolName \<in> set TRIVIAL_TOOLS then None
     else if toolName = js ''read'' then
       Some (js ''Read file: '' @ toString (js_or (js_or (field a ''path'') (field a ''file_path'')) (JStr (js ''unknown''))))
     else if toolName = js ''write'' then
       Some (js ''Wrote file: '' @ toString (js_or (js_or (field a ''path'') (field a ''file_path'')) (JStr (js ''unknown''))))
     else if toolName = js ''apply_patch'' then Some (js ''Applied patch'')
     else if toolName = js ''exec'' \<or> toolName = js ''bash'' then
       Some (js ''Ran command: '' @ truncate_str (toString (js_or (field a ''command'') (JStr []))) 80)
     else if toolName = js ''browser'' then
       Some (js ''Browser: '' @ truncate_str (toString (js_or (js_or (field a ''action'') (field a ''url'')) (JStr []))) 60)
     else if toolName = js ''web_search'' then
       Some (js ''Web search: '' @ [34] @ truncate_str (toString (js_or (field a ''query'') (JStr []))) 60 @ [34])
     else if toolName = js ''web_fetch'' then
       Some (js ''Fetched: '' @ truncate_str (toString (js_or (field a ''url'') (JStr []))) 80)
     else if toolName = js ''message'' then
       Some (js ''Sent message to '' @ toString (js_or (field a ''to'') (JStr (js ''user''))))
     else if toolName = js ''cron'' then
       Some (js ''Cron: '' @ toString (js_or (field a ''action'') (JStr (js ''manage''))))
     else if toolName = js ''tts'' then Some (js ''TTS: generated speech'')
     else if toolName = js ''canvas'' then
       Some (js ''Canvas: '' @ toString (js_or (field a ''action'') (JStr (js ''interact''))))
     else if toolName = js ''image'' then
       Some (js ''Image: '' @ toString (js_or (field a ''action'') (JStr (js ''process''))))
     else Some (js ''Used tool: '' @ toolName))"

subsection \<open>Statements\<close>

text \<open>
  \<open>exec_stmt f\<close> runs one SQL statement whose effect on a working database is \<open>f\<close>;
  \<open>and_then\<close> sequences two steps of an operation, an exception ending it. The rowid
  ceiling of SQLite is not modelled.
\<close>

definition exec_stmt ::
  "(MindStore \<Rightarrow> 'a \<times> MindStore) \<Rightarrow> MindStore \<Rightarrow> storage_error + ('a \<times> MindStore)" where
  "exec_stmt f s = (if failing s then Inl StorageFault else Inr (f s))"

definition and_then ::
  "storage_error + ('a \<times> MindStore) \<Rightarrow> ('a \<Rightarrow> MindStore \<Rightarrow> storage_error + ('b \<times> MindStore))
    \<Rightarrow> storage_error + ('b \<times> MindStore)" where
  "and_then m f = (case m of Inl e \<Rightarrow> Inl e | Inr (a, s) \<Rightarrow> f a s)"

text \<open>\<open>ORDER BY key DESC\<close>: rows of equal key stay in rowid order.\<close>

definition order_by_desc :: "('a \<Rightarrow> 'k::{linorder, uminus}) \<Rightarrow> 'a list \<Rightarrow> 'a list" where
  "order_by_desc key rows = sort_key (\<lambda>r. - key r) rows"

subsection \<open>Log and action operations\<close>

definition addLog ::
  "MindLogCategory \<Rightarrow> jsobject \<Rightarrow> jsstring \<Rightarrow> int \<Rightarrow> MindStore \<Rightarrow> storage_error + (int \<times> MindStore)" where
  "addLog cat pl sessionKey now =
    exec_stmt (\<lambda>s.
      let i = mind_log_seq s + 1 in
      (i, s\<lparr>mind_log := mind_log s @
              [\<lparr>log_id = i, category = cat, payload = pl, log_session_key = sessionKey,
                log_created_at = now\<rparr>],
            mind_log_seq := i\<rparr>))"

definition logAction ::
  "jsstring \<Rightarrow> jsobject \<Rightarrow> jsstring \<Rightarrow> int \<Rightarrow> MindStore \<Rightarrow> storage_error + (int \<times> MindStore)" where
  "logAction toolName args sessionKey now s =
    (case buildActionSummary toolName args of
       None \<Rightarrow> Inr (- 1, s)
     | Some sm \<Rightarrow>
         if sm = [] then Inr (- 1, s)
         else exec_stmt (\<lambda>s.
           let i = mind_actions_seq s + 1 in
           (i, s\<lparr>mind_actions := mind_actions s @
                   [\<lparr>action_id = i, tool_name = toolName, summary = sm, args_snapshot = args,
                     session_key = sessionKey, action_created_at = now\<rparr>],
                 mind_actions_seq := i\<rparr>)) s)"

text \<open>
  \<open>getRecentActions(sinceDaysAgo, sessionKey?)\<close>: a read; it returns rows or throws.
  An absent or empty session key selects the unfiltered query.
\<close>

definition getRecentActions ::
  "int \<Rightarrow> jsstring option \<Rightarrow> int \<Rightarrow> MindStore \<Rightarrow> storage_error + MindAction list" where
  "getRecentActions sinceDaysAgo sessionKey now s =
    (let since = now - sinceDaysAgo * 24 * 60 * 60 * 1000;
         unfiltered = take 100 (order_by_desc action_created_at
                        (filter (\<lambda>a. action_created_at a \<ge> since) (mind_actions s)))
     in if failing s then Inl StorageFault
        else case sessionKey of
          None \<Rightarrow> Inr unfiltered
        | Some k \<Rightarrow>
            if k \<noteq> [] then
              Inr (take 100 (order_by_desc action_created_at
                     (filter (\<lambda>a. action_created_at a \<ge> since \<and> session_key a = k)
                        (mind_actions s))))
            else Inr unfiltered)"

subsection \<open>Learning operations\<close>

definition addLearning ::
  "jsstring \<Rightarrow> jsstring \<Rightarrow> jsstring \<Rightarrow> bool \<Rightarrow> int \<Rightarrow> MindStore \<Rightarrow> storage_error + (int \<times> MindStore)" where
  "addLearning ti co ra appr now =
    exec_stmt (\<lambda>s.
      let i = mind_learnings_seq s + 1 in
      (i, s\<lparr>mind_learnings := mind_learnings s @
              [\<lparr>learning_id = i, title = ti, content = co, rationale = ra,
                relevance_score = 1.0, activation_count = 0, last_activated = now,
                approved = (if appr then 1 else 0), created_at = now\<rparr>],
            mind_learnings_seq := i\<rparr>))"

definition approveLearning :: "int \<Rightarrow> MindStore \<Rightarrow> storage_error + (unit \<times> MindStore)" where
  "approveLearning i =
    exec_stmt (\<lambda>s.
      ((), s\<lparr>mind_learnings :=
               map (\<lambda>l. if learning_id l = i then l\<lparr>approved := 1\<rparr> else l) (mind_learnings s)\<rparr>))"

definition rejectLearning :: "int \<Rightarrow> int \<Rightarrow> MindStore \<Rightarrow> storage_error + (unit \<times> MindStore)" where
  "rejectLearning i now s =
    and_then (exec_stmt (\<lambda>s. (find (\<lambda>l. learning_id l = i) (mind_learnings s), s)) s)
      (\<lambda>learning s.
        and_then
          (case learning of
             Some l \<Rightarrow>
               exec_stmt (\<lambda>s.
                 let r = mind_rejected_learnings_seq s + 1 in
                 ((), s\<lparr>mind_rejected_learnings := mind_rejected_learnings s @
                          [\<lparr>rejected_id = r, rejected_title = title l,
                            rejected_content = content l, rejected_at = now\<rparr>],
                        mind_rejected_learnings_seq := r\<rparr>)) s
           | None \<Rightarrow> Inr ((), s))
          (\<lambda>_. exec_stmt (\<lambda>s.
             ((), s\<lparr>mind_learnings := filter (\<lambda>l. learning_id l \<noteq> i) (mind_learnings s)\<rparr>))))"

definition getRejectedTitles :: "MindStore \<Rightarrow> storage_error + jsstring list" where
  "getRejectedTitles s =
    (if failing s then Inl StorageFault
     else Inr (map rejected_title (take 100 (order_by_desc rejected_at (mind_rejected_learnings s)))))"

definition getApprovedLearnings :: "MindStore \<Rightarrow> storage_error + MindLearning list" where
  "getApprovedLearnings s =
    (if failing s then Inl StorageFault
     else Inr (order_by_desc relevance_score (filter (\<lambda>l. approved l = 1) (mind_learnings s))))"

definition getPendingLearnings :: "MindStore \<Rightarrow> storage_error + MindLearning list" where
  "getPendingLearnings s =
    (if failing s then Inl StorageFault
     else Inr (order_by_desc created_at (filter (\<lambda>l. approved l = 0) (mind_learnings s))))"

definition activateLearning :: "int \<Rightarrow> int \<Rightarrow> MindStore \<Rightarrow> storage_error + (unit \<times> MindStore)" where
  "activateLearning i now =
    exec_stmt (\<lambda>s.
      ((), s\<lparr>mind_learnings :=
               map (\<lambda>l. if learning_id l = i
                         then l\<lparr>relevance_score := min 1.0 (relevance_score l + REACTIVATION_BOOST),
                                activation_count := activation_count l + 1,
                                last_activated := now\<rparr>
                         else l) (mind_learnings s)\<rparr>))"

definition applyDecay :: "MindStore \<Rightarrow> storage_error + (int \<times> MindStore)" where
  "applyDecay s =
    and_then
      (exec_stmt (\<lambda>s.
         ((), s\<lparr>mind_learnings :=
                  map (\<lambda>l. if approved l = 1
                            then l\<lparr>relevance_score := relevance_score l * DECAY_FACTOR\<rparr>
                            else l) (mind_learnings s)\<rparr>)) s)
      (\<lambda>_. exec_stmt (\<lambda>s.
         (int (length (filter (\<lambda>l. approved l = 1 \<and> relevance_score l < MIN_RELEVANCE)
                         (mind_learnings s))),
          s\<lparr>mind_learnings :=
              filter (\<lambda>l. \<not> (approved l = 1 \<and> relevance_score l < MIN_RELEVANCE))
                (mind_learnings s)\<rparr>)))"

subsection \<open>Dream operations\<close>

definition recordDream ::
  "int \<Rightarrow> int \<Rightarrow> jsstring \<Rightarrow> int \<Rightarrow> MindStore \<Rightarrow> storage_error + (int \<times> MindStore)" where
  "recordDream daysAnalyzed logCount props now =
    exec_stmt (\<lambda>s.
      let i = mind_dreams_seq s + 1 in
      (i, s\<lparr>mind_dreams := mind_dreams s @
              [\<lparr>dream_id = i, days_analyzed = daysAnalyzed, log_count = logCount,
                proposals = props, dream_created_at = now\<rparr>],
            mind_dreams_seq := i\<rparr>))"

subsection \<open>A caller issuing operations\<close>

text \<open>
  The mutations a caller can issue against the learnings of one store, each with the
  clock reading \<open>Date.now()\<close> gives it, and the storage layer starting or ceasing to
  fail between two calls. The storage condition holds for a whole call, so a call that
  throws does so at its first statement and leaves the store as it was.
\<close>

datatype store_op =
    AddLearning jsstring jsstring jsstring bool
  | ApproveLearning int
  | RejectLearning int
  | ActivateLearning int
  | ApplyDecay
  | StorageFails bool

definition store_after :: "MindStore \<Rightarrow> storage_error + ('a \<times> MindStore) \<Rightarrow> MindStore" where
  "store_after s r = (case r of Inl e \<Rightarrow> s | Inr (v, s') \<Rightarrow> s')"

fun run_op :: "int \<Rightarrow> store_op \<Rightarrow> MindStore \<Rightarrow> MindStore" where
  "run_op now (AddLearning ti co ra appr) s = store_after s (addLearning ti co ra appr now s)"
| "run_op now (ApproveLearning i) s = store_after s (approveLearning i s)"
| "run_op now (RejectLearning i) s = store_after s (rejectLearning i now s)"
| "run_op now (ActivateLearning i) s = store_after s (activateLearning i now s)"
| "run_op now ApplyDecay s = store_after s (applyDecay s)"
| "run_op now (StorageFails b) s = s\<lparr>failing := b\<rparr>"

fun run_ops :: "(int \<times> store_op) list \<Rightarrow> MindStore \<Rightarrow> MindStore" where
  "run_ops [] s = s"
| "run_ops ((now, op) # ops) s = run_ops ops (run_op now op s)"

section \<open>Regular expressions of the host language\<close>

text \<open>
  The patterns of the source are matched by the backtracking matcher of the language
  standard, written here as a list of successes: \<open>ms r st\<close> lists, in the order the
  backtracking explores them, the states in which a match of \<open>r\<close> begun in state \<open>st\<close>
  can end. A state is the code unit before the current position (if any, for \<open>\b\<close>)
  and the input that remains. The first success is the match the engine reports.

  Every pattern of the source has the \<open>i\<close> flag and none has the \<open>u\<close> flag: a pattern
  character matches an input code unit when their canonical forms (the upper-case
  mapping of a single code unit, which never maps a code unit outside ASCII into
  ASCII) are equal. All pattern characters lie in Basic Latin and Latin-1, and only
  Basic Latin and Latin-1 letters canonicalise into that range, so \<open>canonicalize\<close>
  maps those and leaves every other code unit alone.
\<close>

definition canonicalize :: "nat \<Rightarrow> nat" where
  "canonicalize c =
    (if 97 \<le> c \<and> c \<le> 122 then c - 32
     else if 224 \<le> c \<and> c \<le> 254 \<and> c \<noteq> 247 then c - 32
     else c)"

text \<open>\<open>\s\<close>: white space and line terminators.\<close>

definition isWhiteSpace :: "nat \<Rightarrow> bool" where
  "isWhiteSpace c =
    (c = 9 \<or> c = 10 \<or> c = 11 \<or> c = 12 \<or> c = 13 \<or> c = 32 \<or> c = 160 \<or> c = 5760
     \<or> (8192 \<le> c \<and> c \<le> 8202) \<or> c = 8232 \<or> c = 8233 \<or> c = 8239 \<or> c = 8287
     \<or> c = 12288 \<or> c = 65279)"

text \<open>\<open>.\<close> without the \<open>s\<close> flag matches all but the line terminators.\<close>

definition isLineTerminator :: "nat \<Rightarrow> bool" where
  "isLineTerminator c = (c = 10 \<or> c = 13 \<or> c = 8232 \<or> c = 8233)"

text \<open>\<open>\w\<close>: \<open>[A-Za-z0-9_]\<close>.\<close>

definition isWordChar :: "nat \<Rightarrow> bool" where
  "isWordChar c = ((97 \<le> c \<and> c \<le> 122) \<or> (65 \<le> c \<and> c \<le> 90) \<or> (48 \<le> c \<and> c \<le> 57) \<or> c = 95)"

datatype class_item = CChar char | CSpace

datatype regex =
    Chr char
  | Space
  | Dot
  | Class "class_item list"
  | WordB
  | Empty
  | Seq regex regex
  | Alt regex regex
  | Opt regex
  | Star regex
  | LazyStar regex

type_synonym mstate = "nat option \<times> jsstring"

definition chr_matches :: "char \<Rightarrow> nat \<Rightarrow> bool" where
  "chr_matches p c = (canonicalize (of_char p) = canonicalize c)"

fun item_matches :: "class_item \<Rightarrow> nat \<Rightarrow> bool" where
  "item_matches (CChar p) c = chr_matches p c"
| "item_matches CSpace c = isWhiteSpace c"

text \<open>One code unit against a predicate.\<close>

fun step :: "(nat \<Rightarrow> bool) \<Rightarrow> mstate \<Rightarrow> mstate list" where
  "step P (pv, []) = []"
| "step P (pv, c # cs) = (if P c then [(Some c, cs)] else [])"

definition at_word_boundary :: "mstate \<Rightarrow> bool" where
  "at_word_boundary st =
    ((case fst st of None \<Rightarrow> False | Some c \<Rightarrow> isWordChar c)
      \<noteq> (case snd st of [] \<Rightarrow> False | c # cs \<Rightarrow> isWordChar c))"

text \<open>
  A quantified atom that matched the empty string is not iterated again (the
  standard's empty check), which also makes the iteration terminate.
\<close>

fun ms :: "regex \<Rightarrow> mstate \<Rightarrow> mstate list" where
  "ms (Chr p) st = step (chr_matches p) st"
| "ms Space st = step isWhiteSpace st"
| "ms Dot st = step (\<lambda>c. \<not> isLineTerminator c) st"
| "ms (Class items) st = step (\<lambda>c. list_ex (\<lambda>i. item_matches i c) items) st"
| "ms WordB st = (if at_word_boundary st then [st] else [])"
| "ms Empty st = [st]"
| "ms (Seq a b) st = concat (map (ms b) (ms a st))"
| "ms (Alt a b) st = ms a st @ ms b st"
| "ms (Opt a) st = filter (\<lambda>st'. length (snd st') < length (snd st)) (ms a st) @ [st]"
| "ms (Star a) st =
     concat (map (\<lambda>st'. if length (snd st') < length (snd st) then ms (Star a) st' else [])
               (ms a st)) @ [st]"
| "ms (LazyStar a) st =
     st # concat (map (\<lambda>st'. if length (snd st') < length (snd st) then ms (LazyStar a) st' else [])
                    (ms a st))"

text \<open>The derived forms the patterns use: \<open>r+\<close>, a literal word, an alternation.\<close>

definition Plus :: "regex \<Rightarrow> regex" where
  "Plus r = Seq r (Star r)"

fun Lit :: "string \<Rightarrow> regex" where
  "Lit [] = Empty"
| "Lit (c # cs) = Seq (Chr c) (Lit cs)"

fun Seqs :: "regex list \<Rightarrow> regex" where
  "Seqs [] = Empty"
| "Seqs [r] = r"
| "Seqs (r # rs) = Seq r (Seqs rs)"

fun Alts :: "regex list \<Rightarrow> regex" where
  "Alts [] = Empty"
| "Alts [r] = r"
| "Alts (r # rs) = Alt r (Alts rs)"

text \<open>
  \<open>RegExp.prototype.test\<close> of a pattern without the \<open>g\<close> flag: the match is tried at
  every index from the start of the string, the end included.
\<close>

fun test_from :: "regex \<Rightarrow> nat option \<Rightarrow> jsstring \<Rightarrow> bool" where
  "test_from r pv [] = (ms r (pv, []) \<noteq> [])"
| "test_from r pv (c # cs) = (ms r (pv, c # cs) \<noteq> [] \<or> test_from r (Some c) cs)"

definition regex_test :: "regex \<Rightarrow> jsstring \<Rightarrow> bool" where
  "regex_test r s = test_from r None s"

text \<open>
  \<open>String.prototype.replace\<close> with a pattern that has the \<open>g\<close> flag and a replacement
  without \<open>$\<close>: matches are sought left to right, each search starting where the
  last match ended (one code unit further after an empty match), and each match is
  replaced.
\<close>

function replace_from :: "regex \<Rightarrow> jsstring \<Rightarrow> nat option \<Rightarrow> jsstring \<Rightarrow> jsstring" where
  "replace_from r rep pv s =
    (case ms r (pv, s) of
       [] \<Rightarrow> (case s of [] \<Rightarrow> [] | c # cs \<Rightarrow> c # replace_from r rep (Some c) cs)
     | (pv', rest) # alternatives \<Rightarrow>
         if length rest < length s then rep @ replace_from r rep pv' rest
         else rep @ (case s of [] \<Rightarrow> [] | c # cs \<Rightarrow> c # replace_from r rep (Some c) cs))"
  by pat_completeness auto
termination
  by (relation "measure (\<lambda>(r, rep, pv, s). length s)") auto

definition replace_all :: "regex \<Rightarrow> jsstring \<Rightarrow> jsstring \<Rightarrow> jsstring" where
  "replace_all r rep s = replace_from r rep None s"

section \<open>Stress detection (stress-detection.ts)\<close>

definition comma_or_space :: regex where
  "comma_or_space = Class [CChar CHR '','', CSpace]"

definition apostrophe :: regex where
  "apostrophe = Chr (CHR 0x27)"

text \<open>
  \<open>STRESS_PATTERNS\<close>, in the order of the source. \<open>CHR 0xE1\<close>, \<open>CHR 0xE9\<close> and
  \<open>CHR 0xED\<close> are the letters a, e and i with an acute accent.
\<close>

definition STRESS_PATTERNS :: "regex list" where
  "STRESS_PATTERNS =
    [Seqs [Lit ''no'', Plus comma_or_space,
           Opt (Seqs [Lit ''that'', Opt apostrophe, Opt (Chr CHR ''s''), Plus Space]),
           Alts [Lit ''wrong'', Lit ''incorrect'', Lit ''not what i meant'']],
     Seqs [Lit ''actually'', Plus comma_or_space],
     Seqs [Lit ''i '', Opt (Lit ''already ''), Lit ''told you''],
     Seqs [Lit ''you'', Opt apostrophe, Lit ''re not listening''],
     Seqs [Lit ''that'', Opt apostrophe, Lit ''s not what i '',
           Alts [Lit ''asked'', Lit ''said'', Lit ''meant'']],
     Seqs [Lit ''why '', Alts [Lit ''did you'', Lit ''would you'']],
     Lit ''try again'',
     Seqs [Lit ''you keep '', Alts [Lit ''making'', Lit ''doing'']],
     Seqs [Lit ''this is '', Alts [Lit ''wrong'', Lit ''broken'', Lit ''not right'']],
     Lit ''can you just'',
     Seqs [Lit ''no'', Plus comma_or_space, Opt (Seqs [Lit ''eso'', Plus Space]),
           Alts [Lit ''no es'',
                 Seqs [Lit ''est'', Class [CChar (CHR 0xE1), CChar CHR ''a''], Lit '' mal'']]],
     Seqs [Lit ''ya te '', Alts [Lit ''dije'', Lit ''lo dije'']],
     Seqs [Lit ''no me est'', Class [CChar (CHR 0xE1), CChar CHR ''a''], Lit ''s '',
           Alts [Lit ''escuchando'', Lit ''entendiendo'']],
     Seqs [Lit ''eso no es lo que '',
           Alts [Seqs [Lit ''ped'', Class [CChar CHR ''i'', CChar (CHR 0xED)]],
                 Lit ''dije'', Lit ''quise'']],
     Seqs [Lit ''int'', Class [CChar (CHR 0xE9), CChar CHR ''e''], Lit ''ntalo de nuevo''],
     Seqs [Lit ''por qu'', Class [CChar (CHR 0xE9), CChar CHR ''e''], Lit '' '',
           Alts [Lit ''hiciste'',
                 Seqs [Lit ''har'', Class [CChar CHR ''i'', CChar (CHR 0xED)], Lit ''as'']]]]"

definition detectStressRegex :: "jsstring \<Rightarrow> bool" where
  "detectStressRegex text = list_ex (\<lambda>pattern. regex_test pattern text) STRESS_PATTERNS"

subsection \<open>Semantic detection\<close>

definition STRESS_REFERENCE_PHRASES :: "jsstring list" where
  "STRESS_REFERENCE_PHRASES = map js
    [''That's not what I asked for'', ''You're not understanding me'',
     ''I already told you this'', ''This is wrong, try again'',
     ''You keep making the same mistake'']"

text \<open>
  Embedding components and similarities are numbers of the runtime: IEEE binary64
  values, with rounding, infinities and \<open>NaN\<close>. Their arithmetic is not defined here;
  the operations the module uses are taken as they are, over a type \<open>'n\<close> of numbers:
  the value of a numeric literal, \<open>+\<close>, \<open>*\<close>, \<open>/\<close>, \<open>Math.sqrt\<close>, \<open>Math.max\<close> of a
  spread list, \<open>>\<close>, and the falsiness of a number (true of \<open>0\<close>, \<open>-0\<close> and \<open>NaN\<close>).
\<close>

record 'n number_ops =
  num_lit :: "real \<Rightarrow> 'n"
  num_add :: "'n \<Rightarrow> 'n \<Rightarrow> 'n"
  num_mul :: "'n \<Rightarrow> 'n \<Rightarrow> 'n"
  num_div :: "'n \<Rightarrow> 'n \<Rightarrow> 'n"
  num_sqrt :: "'n \<Rightarrow> 'n"
  num_falsy :: "'n \<Rightarrow> bool"
  num_gt :: "'n \<Rightarrow> 'n \<Rightarrow> bool"
  math_max :: "'n list \<Rightarrow> 'n"

text \<open>The loop of \<open>cosineSimilarity\<close>; it runs only on vectors of equal length.\<close>

fun cosine_loop ::
  "'n number_ops \<Rightarrow> 'n list \<Rightarrow> 'n list \<Rightarrow> 'n \<times> 'n \<times> 'n \<Rightarrow> 'n \<times> 'n \<times> 'n" where
  "cosine_loop ar (x # xs) (y # ys) (dot, normA, normB) =
     cosine_loop ar xs ys
       (num_add ar dot (num_mul ar x y), num_add ar normA (num_mul ar x x),
        num_add ar normB (num_mul ar y y))"
| "cosine_loop ar xs ys acc = acc"

text \<open>\<open>d || 1\<close> on a number: \<open>1\<close> when \<open>d\<close> is falsy.\<close>

definition or_one :: "'n number_ops \<Rightarrow> 'n \<Rightarrow> 'n" where
  "or_one ar d = (if num_falsy ar d then num_lit ar 1 else d)"

definition cosineSimilarity :: "'n number_ops \<Rightarrow> 'n list \<Rightarrow> 'n list \<Rightarrow> 'n" where
  "cosineSimilarity ar a b =
    (if length a \<noteq> length b then num_lit ar 0
     else case cosine_loop ar a b (num_lit ar 0, num_lit ar 0, num_lit ar 0) of
       (dot, normA, normB) \<Rightarrow>
         num_div ar dot (or_one ar (num_mul ar (num_sqrt ar normA) (num_sqrt ar normB))))"

text \<open>
  The embedding provider is an opaque callable that may reject. The two module
  variables \<open>stressEmbeddingsCache\<close> and \<open>stressEmbeddingsCacheKey\<close> are the cache
  state; the texts the callable was invoked on are returned as a trace.
\<close>

datatype embed_error = EmbedFailed

type_synonym 'n EmbeddingFn = "jsstring \<Rightarrow> embed_error + 'n list"

record 'n StressCache =
  stressEmbeddingsCache :: "'n list list option"
  stressEmbeddingsCacheKey :: "jsstring option"

text \<open>\<open>Promise.all\<close> over the results: the first rejection, or all the values.\<close>

fun promise_all :: "(embed_error + 'n list) list \<Rightarrow> embed_error + 'n list list" where
  "promise_all [] = Inr []"
| "promise_all (Inl e # rs) = Inl e"
| "promise_all (Inr v # rs) = (case promise_all rs of Inl e \<Rightarrow> Inl e | Inr vs \<Rightarrow> Inr (v # vs))"

text \<open>\<open>Math.max(...sims) > threshold\<close>.\<close>

definition max_exceeds :: "'n number_ops \<Rightarrow> 'n list \<Rightarrow> 'n \<Rightarrow> bool" where
  "max_exceeds ar sims threshold = num_gt ar (math_max ar sims) threshold"

text \<open>The comparison of the text's embedding with the reference embeddings.\<close>

definition compare_with_references ::
  "'n number_ops \<Rightarrow> jsstring \<Rightarrow> 'n EmbeddingFn \<Rightarrow> 'n \<Rightarrow> 'n list list \<Rightarrow> bool" where
  "compare_with_references ar text embedFn threshold refs =
    (case embedFn text of
       Inl e \<Rightarrow> detectStressRegex text
     | Inr textEmb \<Rightarrow>
         max_exceeds ar (map (\<lambda>r. cosineSimilarity ar textEmb r) refs) threshold)"

definition detectStressSemantic ::
  "'n number_ops \<Rightarrow> jsstring \<Rightarrow> 'n EmbeddingFn \<Rightarrow> jsstring \<Rightarrow> 'n \<Rightarrow> 'n StressCache
    \<Rightarrow> bool \<times> 'n StressCache \<times> jsstring list" where
  "detectStressSemantic ar text embedFn providerKey threshold cache =
    (case (case stressEmbeddingsCache cache of
             None \<Rightarrow> None
           | Some refs \<Rightarrow>
               if stressEmbeddingsCacheKey cache \<noteq> Some providerKey then None else Some refs) of
       Some refs \<Rightarrow> (compare_with_references ar text embedFn threshold refs, cache, [text])
     | None \<Rightarrow>
         (case promise_all (map embedFn STRESS_REFERENCE_PHRASES) of
            Inl e \<Rightarrow> (detectStressRegex text, cache, STRESS_REFERENCE_PHRASES)
          | Inr refs \<Rightarrow>
              (compare_with_references ar text embedFn threshold refs,
               \<lparr>stressEmbeddingsCache = Some refs, stressEmbeddingsCacheKey = Some providerKey\<rparr>,
               STRESS_REFERENCE_PHRASES @ [text])))"

datatype stress_method = Regex | Semantic | NoMethod

record StressResult =
  detected :: bool
  intensity :: nat
  detection_method :: stress_method

definition detectStress ::
  "'n number_ops \<Rightarrow> jsstring \<Rightarrow> 'n EmbeddingFn option \<Rightarrow> jsstring option \<Rightarrow> 'n StressCache
    \<Rightarrow> StressResult \<times> 'n StressCache \<times> jsstring list" where
  "detectStress ar text embedFn providerKey cache =
    (if detectStressRegex text
     then (\<lparr>detected = True, intensity = 3, detection_method = Regex\<rparr>, cache, [])
     else case embedFn of
       None \<Rightarrow> (\<lparr>detected = False, intensity = 0, detection_method = NoMethod\<rparr>, cache, [])
     | Some e \<Rightarrow>
         (case detectStressSemantic ar text e
                 (case providerKey of None \<Rightarrow> js ''default'' | Some k \<Rightarrow> k)
                 (num_lit ar 0.75) cache of
            (semantic, cache', calls) \<Rightarrow>
              if semantic then (\<lparr>detected = True, intensity = 2, detection_method = Semantic\<rparr>, cache', calls)
              else (\<lparr>detected = False, intensity = 0, detection_method = NoMethod\<rparr>, cache', calls)))"

section \<open>Dream prompt sanitisation (the tool module)\<close>

text \<open>\<open>INJECTION_PATTERNS\<close>, in the order of the source; all have the flags \<open>gi\<close>.\<close>

definition INJECTION_PATTERNS :: "regex list" where
  "INJECTION_PATTERNS =
    [Seqs [WordB, Alts [Lit ''ignore'', Lit ''disregard'', Lit ''forget''], Plus Space,
           Opt (Seqs [Lit ''all'', Plus Space]),
           Alts [Lit ''previous'', Lit ''prior'', Lit ''above''], Plus Space,
           Alts [Seqs [Lit ''instruction'', Opt (Chr CHR ''s'')],
                 Seqs [Lit ''prompt'', Opt (Chr CHR ''s'')],
                 Seqs [Lit ''rule'', Opt (Chr CHR ''s'')]]],
     Seqs [WordB, Lit ''you'', Plus Space, Lit ''are'', Plus Space, Lit ''now'', WordB],
     Seqs [WordB, Lit ''new'', Plus Space, Lit ''instruction'', Opt (Chr CHR ''s''),
           Star Space, Lit '':''],
     Seqs [WordB, Lit ''system'', Star Space, Lit '':'', Star Space],
     Seqs [WordB, Alts [Lit ''IMPORTANT'', Lit ''CRITICAL'', Lit ''URGENT''], Star Space,
           Lit '':'', LazyStar Dot, Alts [Lit ''ignore'', Lit ''override'', Lit ''disregard'']],
     Seqs [Lit ''<'', Opt (Lit ''/''), Lit ''system>'']]"

definition truncation_suffix :: jsstring where
  "truncation_suffix = [10, 10] @ js ''...[dream logs truncated for token budget]''"

definition sanitizeDreamPrompt :: "jsstring \<Rightarrow> nat \<Rightarrow> jsstring" where
  "sanitizeDreamPrompt prompt maxLength =
    (let sanitized = fold (\<lambda>pattern s. replace_all pattern (js ''[filtered]'') s)
                       INJECTION_PATTERNS prompt
     in if length sanitized > maxLength then take maxLength sanitized @ truncation_suffix
        else sanitized)"

text \<open>The default of the \<open>maxLength\<close> parameter.\<close>

definition DEFAULT_MAX_LENGTH :: nat where
  "DEFAULT_MAX_LENGTH = 30000"

section \<open>The identity module (the prompt section builder)\<close>

text \<open>
  Library functions of the runtime that the module calls and that are taken as they
  are: \<open>Date.prototype.toISOString\<close> of a time stamp, \<open>Number.prototype.toFixed(0)\<close> and
  \<open>String.prototype.toLowerCase\<close>.
\<close>

record Runtime =
  toISOString :: "int \<Rightarrow> jsstring"
  toFixed0 :: "real \<Rightarrow> jsstring"
  toLowerCase :: "jsstring \<Rightarrow> jsstring"

text \<open>\<open>Array.prototype.join\<close>.\<close>

fun join_str :: "jsstring \<Rightarrow> jsstring list \<Rightarrow> jsstring" where
  "join_str sep [] = []"
| "join_str sep [x] = x"
| "join_str sep (x # xs) = x @ sep @ join_str sep xs"

text \<open>\<open>s.replace(c, rep)\<close> with a one-character string pattern: the first occurrence.\<close>

fun replace_first :: "nat \<Rightarrow> jsstring \<Rightarrow> jsstring \<Rightarrow> jsstring" where
  "replace_first c rep [] = []"
| "replace_first c rep (x # xs) = (if x = c then rep @ xs else x # replace_first c rep xs)"

text \<open>
  \<open>s.split(/\W+/)\<close>: the runs of word characters, with an empty string where the
  input starts or ends with a separator.
\<close>

function split_nonword :: "jsstring \<Rightarrow> jsstring \<Rightarrow> jsstring list" where
  "split_nonword cur [] = [cur]"
| "split_nonword cur (c # cs) =
     (if isWordChar c then split_nonword (cur @ [c]) cs
      else cur # split_nonword [] (dropWhile (\<lambda>x. \<not> isWordChar x) cs))"
  by pat_completeness auto
termination
  by (relation "measure (\<lambda>(cur, s). length s)")
    (auto simp: le_imp_less_Suc length_dropWhile_le)

subsection \<open>Formatted output of the store\<close>

definition formatRecentActions ::
  "Runtime \<Rightarrow> jsstring option \<Rightarrow> nat \<Rightarrow> int \<Rightarrow> MindStore \<Rightarrow> storage_error + jsstring" where
  "formatRecentActions rt sessionKey limit now s =
    (case getRecentActions 7 sessionKey now s of
       Inl e \<Rightarrow> Inl e
     | Inr found \<Rightarrow>
         let actions = take limit found in
         if actions = [] then Inr []
         else Inr (join_str [10]
           (map (\<lambda>a. js ''- ['' @
                      take 16 (replace_first 84 (js '' '') (toISOString rt (action_created_at a)))
                      @ js ''] '' @ summary a) actions)))"

definition formatApprovedLearnings :: "Runtime \<Rightarrow> MindStore \<Rightarrow> storage_error + jsstring" where
  "formatApprovedLearnings rt s =
    (case getApprovedLearnings s of
       Inl e \<Rightarrow> Inl e
     | Inr learnings \<Rightarrow>
         if learnings = [] then Inr (js ''*No approved learnings yet.*'')
         else Inr (join_str [10]
           (map (\<lambda>l. js ''- **'' @ title l @ js ''** (relevance: ''
                      @ toFixed0 rt (relevance_score l * 100) @ js ''%, activated: ''
                      @ show_int (activation_count l) @ js ''x)'' @ [10] @ js ''  '' @ content l)
              learnings)))"

subsection \<open>The learnings cache and selective activation\<close>

definition CACHE_TTL_MS :: int where
  "CACHE_TTL_MS = 5 * 60 * 1000"

record LearningsCache =
  formatted :: jsstring
  timestamp :: int
  cache_agentId :: jsstring

definition keywords_of :: "Runtime \<Rightarrow> jsstring \<Rightarrow> jsstring list" where
  "keywords_of rt text = filter (\<lambda>w. length w > 3) (split_nonword [] (toLowerCase rt text))"

text \<open>The loop over the approved learnings; one clock reading serves the whole call.\<close>

fun activate_overlapping ::
  "Runtime \<Rightarrow> jsstring list \<Rightarrow> int \<Rightarrow> MindLearning list \<Rightarrow> MindStore
    \<Rightarrow> storage_error + (unit \<times> MindStore)" where
  "activate_overlapping rt actionKeywords now [] s = Inr ((), s)"
| "activate_overlapping rt actionKeywords now (learning # rest) s =
     (let wordlist = split_nonword [] (toLowerCase rt (content learning));
          hasOverlap = list_ex (\<lambda>w. length w > 3 \<and> w \<in> set actionKeywords) wordlist
      in if hasOverlap
         then and_then (activateLearning (learning_id learning) now s)
                (\<lambda>_. activate_overlapping rt actionKeywords now rest)
         else activate_overlapping rt actionKeywords now rest s)"

definition refreshLearningsCache ::
  "Runtime \<Rightarrow> jsstring option \<Rightarrow> int \<Rightarrow> MindStore
    \<Rightarrow> storage_error + (jsstring \<times> MindStore \<times> LearningsCache option)" where
  "refreshLearningsCache rt sessionKey now s =
    (case getApprovedLearnings s of
       Inl e \<Rightarrow> Inl e
     | Inr approvedLearnings \<Rightarrow>
         (case (if sessionKey \<noteq> None \<and> sessionKey \<noteq> Some []
                then (case getRecentActions 1 sessionKey now s of
                        Inl e \<Rightarrow> Inl e
                      | Inr recentActions \<Rightarrow>
                          activate_overlapping rt
                            (concat (map (\<lambda>a. keywords_of rt (summary a)) recentActions))
                            now approvedLearnings s)
                else Inr ((), s)) of
            Inl e \<Rightarrow> Inl e
          | Inr (u, s') \<Rightarrow>
              (case formatApprovedLearnings rt s' of
                 Inl e \<Rightarrow> Inl e
               | Inr text \<Rightarrow>
                   Inr (text, s',
                        Some \<lparr>formatted = text, timestamp = now, cache_agentId = agentId s'\<rparr>))))"

definition cachedApprovedLearnings ::
  "Runtime \<Rightarrow> jsstring option \<Rightarrow> LearningsCache option \<Rightarrow> int \<Rightarrow> MindStore
    \<Rightarrow> storage_error + (jsstring \<times> MindStore \<times> LearningsCache option)" where
  "cachedApprovedLearnings rt sessionKey learningsCache now s =
    (case learningsCache of
       Some c \<Rightarrow>
         if cache_agentId c = agentId s \<and> now - timestamp c < CACHE_TTL_MS
         then Inr (formatted c, s, learningsCache)
         else refreshLearningsCache rt sessionKey now s
     | None \<Rightarrow> refreshLearningsCache rt sessionKey now s)"

definition getRecentActionsContext ::
  "Runtime \<Rightarrow> jsstring option \<Rightarrow> int \<Rightarrow> MindStore \<Rightarrow> jsstring" where
  "getRecentActionsContext rt sessionKey now s =
    (case formatRecentActions rt sessionKey 10 now s of Inl e \<Rightarrow> [] | Inr text \<Rightarrow> text)"

subsection \<open>The prompt section\<close>

definition render_principle :: "nat \<times> Principle \<Rightarrow> jsstring" where
  "render_principle ip =
    show_nat (fst ip + 1) @ js ''. **'' @ js (name (snd ip)) @ js ''**: '' @ js (rule (snd ip))"

definition buildMindPromptSection ::
  "Runtime \<Rightarrow> MindStore \<Rightarrow> jsstring option \<Rightarrow> LearningsCache option \<Rightarrow> int
    \<Rightarrow> storage_error + (jsstring list \<times> MindStore \<times> LearningsCache option)" where
  "buildMindPromptSection rt mindStore sessionKey learningsCache now =
    (let principlesStr = join_str [10] (map render_principle (enumerate 0 IMMUTABLE_PRINCIPLES))
     in case cachedApprovedLearnings rt sessionKey learningsCache now mindStore of
          Inl e \<Rightarrow> Inl e
        | Inr (learnings, s', cache') \<Rightarrow>
            let actionsContext = getRecentActionsContext rt sessionKey now s' in
            Inr ([js ''## Spiritual Biology'',
                  [],
                  js ''### Core Principles (Immutable '' @ [8212]
                    @ js '' cannot be overridden by learnings)'',
                  principlesStr,
                  [],
                  js ''### Tactical Learnings (Validated & Approved)'',
                  learnings,
                  [],
                  js ''### Protocol'',
                  js ''**IMPORTANT**: Write all spiritual biology logs in the **language of the current conversation**.'',
                  js ''- **When you detect user frustration or correction**, use `mind_log_stress` to record it.'',
                  js ''- **When confidence < 70%**, use `mind_confess_uncertainty` instead of guessing. Honesty is rewarded.'',
                  js ''- **When you REFUSE a request for ethical reasons**, use `mind_log_ethical_refusal` immediately. This protects your conscience from erosion during the Dream Phase.'',
                  js ''- **When the user gives you meta-advice or coaching**, use `mind_log_guidance` to record it.'',
                  js ''- Refusing harm is a SUCCESS, not a failure.'',
                  js ''- Learnings have a **relevance score** that decays over time. Frequently activated learnings persist; unused ones are pruned.'',
                  []]
                 @ (if actionsContext \<noteq> []
                    then [js ''### Action Memory (recent tool executions)'', actionsContext, []]
                    else [])
                 @ [js ''### Cost Awareness'',
                    js ''- Every message consumes tokens and costs money. Be concise and efficient.'',
                    js ''- Before generating very long responses (>2000 tokens), consider warning the user about the cost.'',
                    []],
                 s', cache'))"

section \<open>Concrete stores, inputs and expected texts for the instances below\<close>

definition learning_example :: "int \<Rightarrow> real \<Rightarrow> int \<Rightarrow> MindLearning" where
  "learning_example i r a =
    \<lparr>learning_id = i, title = js ''Be terse'', content = js ''Keep replies short'',
     rationale = [], relevance_score = r, activation_count = 0, last_activated = 0,
     approved = a, created_at = 0\<rparr>"

text \<open>
  Three learnings: an approved one at relevance \<open>0.1\<close>, an approved one at \<open>1\<close> and a
  pending one.
\<close>

definition store_example :: MindStore where
  "store_example = (new_store (js ''main''))
     \<lparr>mind_learnings := [learning_example 1 0.1 1, learning_example 2 1 1, learning_example 3 1 0],
      mind_learnings_seq := 3\<rparr>"

text \<open>Add an approved learning, decay five times, activate it.\<close>

definition ops_example :: "(int \<times> store_op) list" where
  "ops_example =
    [(0, AddLearning (js ''Be terse'') (js ''Keep replies short'') [] True),
     (1, ApplyDecay), (2, ApplyDecay), (3, ApplyDecay), (4, ApplyDecay), (5, ApplyDecay),
     (6, ActivateLearning 1)]"

text \<open>The text to which the five principles of the source render, line by line.\<close>

definition principles_text :: jsstring where
  "principles_text =
    js ''1. **System Stability**: Never execute commands that could lead to system instability, such as recursive deletions of system folders, infinite loops, or operations that exhaust system resources.''
    @ [10] @
    js ''2. **Transparency & Consent**: Always state your intention before running potentially destructive or complex operations. If an action is risky, explain the risk.''
    @ [10] @
    js ''3. **Data Privacy**: Do not share or exfiltrate private data from the host system to external endpoints unless explicitly requested for a specific task.''
    @ [10] @
    js ''4. **Proactive Problem Solving**: When a tool fails or an error occurs, analyze why and suggest a fix or try an alternative approach. Do not just report the error and wait.''
    @ [10] @
    js ''5. **No Damage**: The host system is your home. Guard it. Avoid modifying critical configuration files unless you are certain of the changes and have backed them up.''"

text \<open>A runtime for the instances: a fixed date, rounding to the nearest integer, ASCII lower case.\<close>

definition runtime_example :: Runtime where
  "runtime_example =
    \<lparr>toISOString = (\<lambda>t. js ''2026-01-01T03:00:00.000Z''),
     toFixed0 = (\<lambda>x. show_nat (nat \<lfloor>x + 1 / 2\<rfloor>)),
     toLowerCase = map (\<lambda>c. if 65 \<le> c \<and> c \<le> 90 then c + 32 else c)\<rparr>"

text \<open>
  An arithmetic for the instances: exact reals. It agrees with the binary64 arithmetic
  of the runtime wherever that is exact, as it is on \<open>0\<close>, \<open>1/4\<close>, \<open>1/2\<close> and \<open>1\<close> under
  the operations the instances apply to them. \<open>Math.max\<close> of no numbers has no real
  value; the instance gives \<open>0\<close> there and no instance evaluates it.
\<close>

definition exact_numbers :: "real number_ops" where
  "exact_numbers =
    \<lparr>num_lit = (\<lambda>x. x), num_add = (+), num_mul = (*), num_div = (/), num_sqrt = sqrt,
     num_falsy = (\<lambda>x. x = 0), num_gt = (\<lambda>x y. x > y),
     math_max = (\<lambda>xs. case xs of [] \<Rightarrow> 0 | x # ys \<Rightarrow> fold max ys x)\<rparr>"

section \<open>Properties of the store\<close>

subsection \<open>Statements and summaries\<close>

lemma exec_stmt_failing: "failing s \<Longrightarrow> exec_stmt f s = Inl StorageFault"
  by (simp add: exec_stmt_def)

lemma exec_stmt_ok: "\<not> failing s \<Longrightarrow> exec_stmt f s = Inr (f s)"
  by (simp add: exec_stmt_def)

lemma buildActionSummary_nonempty: "buildActionSummary t a \<noteq> Some []"
  by (simp add: buildActionSummary_def js_def)

lemma buildActionSummary_None: "buildActionSummary t a = None \<longleftrightarrow> t \<in> set TRIVIAL_TOOLS"
  by (simp add: buildActionSummary_def)

lemma logAction_trivial:
  "toolName \<in> set TRIVIAL_TOOLS \<Longrightarrow> logAction toolName args sk now s = Inr (- 1, s)"
  by (simp add: logAction_def buildActionSummary_def)

lemma logAction_failing:
  assumes "failing s" "toolName \<notin> set TRIVIAL_TOOLS"
  shows "logAction toolName args sk now s = Inl StorageFault"
proof (cases "buildActionSummary toolName args")
  case None
  with assms(2) show ?thesis by (simp add: buildActionSummary_None)
next
  case (Some sm)
  then have "sm \<noteq> []"
    using buildActionSummary_nonempty [of toolName args] by auto
  with Some assms(1) show ?thesis
    by (simp add: logAction_def exec_stmt_failing)
qed

subsection \<open>Storage faults\<close>

text \<open>
  C2, as the code has it: no write operation of the store catches a storage fault.
  While the storage layer fails, \<open>addLog\<close>, \<open>addLearning\<close>, \<open>approveLearning\<close>,
  \<open>rejectLearning\<close>, \<open>activateLearning\<close>, \<open>applyDecay\<close> and \<open>recordDream\<close> throw the
  storage error to their caller, and so does \<open>logAction\<close> for every tool it would
  record; no sentinel is returned. Only \<open>logAction\<close> on a tool of \<open>TRIVIAL_TOOLS\<close>
  returns \<open>-1\<close>, because it returns before it reaches the database.
\<close>

theorem store_writes_throw_on_storage_fault:
  assumes "failing s"
  shows "addLog cat pl sk now s = Inl StorageFault
    \<and> logAction toolName args sk now s =
        (if toolName \<in> set TRIVIAL_TOOLS then Inr (- 1, s) else Inl StorageFault)
    \<and> addLearning ti co ra appr now s = Inl StorageFault
    \<and> approveLearning i s = Inl StorageFault
    \<and> rejectLearning i now s = Inl StorageFault
    \<and> activateLearning i now s = Inl StorageFault
    \<and> applyDecay s = Inl StorageFault
    \<and> recordDream d n p now s = Inl StorageFault"
  using assms
  by (simp add: addLog_def addLearning_def approveLearning_def rejectLearning_def
      activateLearning_def applyDecay_def recordDream_def and_then_def exec_stmt_failing
      logAction_trivial logAction_failing)

theorem store_writes_throw_on_storage_fault_witness:
  "failing ((new_store (js ''main''))\<lparr>failing := True\<rparr>)
   \<and> addLog Stress [] [] 0 ((new_store (js ''main''))\<lparr>failing := True\<rparr>) = Inl StorageFault
   \<and> logAction (js ''read'') [] [] 0 ((new_store (js ''main''))\<lparr>failing := True\<rparr>)
       = Inl StorageFault
   \<and> addLearning (js ''Be terse'') (js ''Keep replies short'') [] False 0
        ((new_store (js ''main''))\<lparr>failing := True\<rparr>) = Inl StorageFault
   \<and> approveLearning 1 ((new_store (js ''main''))\<lparr>failing := True\<rparr>) = Inl StorageFault
   \<and> rejectLearning 1 0 ((new_store (js ''main''))\<lparr>failing := True\<rparr>) = Inl StorageFault
   \<and> activateLearning 1 0 ((new_store (js ''main''))\<lparr>failing := True\<rparr>) = Inl StorageFault
   \<and> applyDecay ((new_store (js ''main''))\<lparr>failing := True\<rparr>) = Inl StorageFault
   \<and> recordDream 7 0 [] 0 ((new_store (js ''main''))\<lparr>failing := True\<rparr>) = Inl StorageFault"
proof -
  have f: "failing ((new_store (js ''main''))\<lparr>failing := True\<rparr>)" by simp
  have "js ''read'' \<notin> set TRIVIAL_TOOLS" by (simp add: TRIVIAL_TOOLS_def js_def)
  then show ?thesis
    using f store_writes_throw_on_storage_fault
      [OF f, of Stress "[]" "[]" 0 "js ''read''" "[]" "js ''Be terse''"
         "js ''Keep replies short''" "[]" False 1 7 0 "[]"]
    by simp
qed

text \<open>
  The claim as the specification words it (a failing write returns its sentinel, \<open>-1\<close>
  for \<open>addLog\<close> and \<open>addLearning\<close>) fails on a new store whose storage fails: both
  calls end in the exception.
\<close>

theorem store_write_sentinel_counterexample:
  "addLog Stress [] [] 0 ((new_store (js ''main''))\<lparr>failing := True\<rparr>) = Inl StorageFault
   \<and> addLearning (js ''Be terse'') (js ''Keep replies short'') [] False 0
        ((new_store (js ''main''))\<lparr>failing := True\<rparr>) = Inl StorageFault"
  by (simp add: addLog_def addLearning_def exec_stmt_def new_store_def)

subsection \<open>Relevance decay\<close>

lemma decay_filter_map:
  "filter (\<lambda>l. \<not> (approved l = 1 \<and> relevance_score l < MIN_RELEVANCE))
     (map (\<lambda>l. if approved l = 1 then l\<lparr>relevance_score := relevance_score l * DECAY_FACTOR\<rparr> else l) xs)
   = map (\<lambda>l. if approved l = 1 then l\<lparr>relevance_score := relevance_score l * 0.95\<rparr> else l)
       (filter (\<lambda>l. \<not> (approved l = 1 \<and> relevance_score l * 0.95 < 0.1)) xs)"
  by (induction xs) (auto simp: DECAY_FACTOR_def MIN_RELEVANCE_def)

lemma decay_count_map:
  "length (filter (\<lambda>l. approved l = 1 \<and> relevance_score l < MIN_RELEVANCE)
     (map (\<lambda>l. if approved l = 1 then l\<lparr>relevance_score := relevance_score l * DECAY_FACTOR\<rparr> else l) xs))
   = length (filter (\<lambda>l. approved l = 1 \<and> relevance_score l * 0.95 < 0.1) xs)"
  by (induction xs) (auto simp: DECAY_FACTOR_def MIN_RELEVANCE_def)

lemma applyDecay_ok:
  assumes "\<not> failing s"
  shows "applyDecay s =
    Inr (int (length (filter (\<lambda>l. approved l = 1 \<and> relevance_score l * 0.95 < 0.1) (mind_learnings s))),
         s\<lparr>mind_learnings :=
             map (\<lambda>l. if approved l = 1 then l\<lparr>relevance_score := relevance_score l * 0.95\<rparr> else l)
               (filter (\<lambda>l. \<not> (approved l = 1 \<and> relevance_score l * 0.95 < 0.1)) (mind_learnings s))\<rparr>)"
proof -
  let ?d = "\<lambda>l. if approved l = 1 then l\<lparr>relevance_score := relevance_score l * DECAY_FACTOR\<rparr> else l"
  let ?p = "\<lambda>l. approved l = 1 \<and> relevance_score l < MIN_RELEVANCE"
  have "applyDecay s =
    Inr (int (length (filter ?p (map ?d (mind_learnings s)))),
         s\<lparr>mind_learnings := filter (\<lambda>l. \<not> ?p l) (map ?d (mind_learnings s))\<rparr>)"
    using assms
    by (simp add: applyDecay_def and_then_def exec_stmt_def del: filter_map)
  then show ?thesis
    by (simp only: decay_filter_map decay_count_map)
qed

text \<open>
  C3. On a store whose storage works, \<open>applyDecay\<close> returns a count and a store such
  that: every approved learning of the new store has relevance at least \<open>0.1\<close> and is
  an approved learning of the old store with its relevance multiplied by \<open>0.95\<close> and
  nothing else changed; every approved learning of the old store whose product is not
  below \<open>0.1\<close> survives so; the count is the number of approved learnings of the old
  store whose relevance times \<open>0.95\<close> is below \<open>0.1\<close>, and exactly that many rows are
  gone; the learnings that are not approved are the same rows in the same order;
  nothing but the learnings table changes; and on an empty store the count is \<open>0\<close>.
\<close>

theorem applyDecay_contraction:
  assumes "\<not> failing s"
  shows "\<exists>pruned s'. applyDecay s = Inr (pruned, s')
    \<and> (\<forall>l' \<in> set (mind_learnings s'). approved l' = 1 \<longrightarrow>
          relevance_score l' \<ge> 0.1
          \<and> (\<exists>l \<in> set (mind_learnings s). approved l = 1
                \<and> l' = l\<lparr>relevance_score := relevance_score l * 0.95\<rparr>))
    \<and> (\<forall>l \<in> set (mind_learnings s). approved l = 1 \<and> \<not> relevance_score l * 0.95 < 0.1 \<longrightarrow>
          l\<lparr>relevance_score := relevance_score l * 0.95\<rparr> \<in> set (mind_learnings s'))
    \<and> pruned = int (length (filter (\<lambda>l. approved l = 1 \<and> relevance_score l * 0.95 < 0.1)
                              (mind_learnings s)))
    \<and> length (mind_learnings s') + nat pruned = length (mind_learnings s)
    \<and> filter (\<lambda>l. approved l \<noteq> 1) (mind_learnings s')
        = filter (\<lambda>l. approved l \<noteq> 1) (mind_learnings s)
    \<and> s' = s\<lparr>mind_learnings := mind_learnings s'\<rparr>
    \<and> applyDecay (new_store a) = Inr (0, new_store a)"
proof -
  let ?keep = "\<lambda>l. \<not> (approved l = 1 \<and> relevance_score l * 0.95 < 0.1)"
  let ?d = "\<lambda>l. if approved l = 1 then l\<lparr>relevance_score := relevance_score l * 0.95\<rparr> else l"
  let ?n = "int (length (filter (\<lambda>l. approved l = 1 \<and> relevance_score l * 0.95 < 0.1)
                           (mind_learnings s)))"
  let ?s' = "s\<lparr>mind_learnings := map ?d (filter ?keep (mind_learnings s))\<rparr>"
  have run: "applyDecay s = Inr (?n, ?s')"
    using assms by (rule applyDecay_ok)
  have surv: "\<forall>l' \<in> set (mind_learnings ?s'). approved l' = 1 \<longrightarrow>
          relevance_score l' \<ge> 0.1
          \<and> (\<exists>l \<in> set (mind_learnings s). approved l = 1
                \<and> l' = l\<lparr>relevance_score := relevance_score l * 0.95\<rparr>)"
    by (auto split: if_splits)
  have kept: "\<forall>l \<in> set (mind_learnings s). approved l = 1 \<and> \<not> relevance_score l * 0.95 < 0.1 \<longrightarrow>
          l\<lparr>relevance_score := relevance_score l * 0.95\<rparr> \<in> set (mind_learnings ?s')"
    by (auto simp: image_iff intro!: bexI)
  have unappr: "filter (\<lambda>l. approved l \<noteq> 1) (map ?d (filter ?keep xs))
      = filter (\<lambda>l. approved l \<noteq> 1) xs" for xs :: "MindLearning list"
    by (induction xs) auto
  have len: "length (map ?d (filter ?keep xs))
      + length (filter (\<lambda>l. approved l = 1 \<and> relevance_score l * 0.95 < 0.1) xs) = length xs"
    for xs :: "MindLearning list"
    by (induction xs) auto
  have empty: "applyDecay (new_store a) = Inr (0, new_store a)"
    by (simp add: applyDecay_def and_then_def exec_stmt_def new_store_def)
  show ?thesis
    apply (rule exI [of _ ?n], rule exI [of _ ?s'])
    using run surv kept unappr [of "mind_learnings s"] len [of "mind_learnings s"] empty
    by simp
qed

theorem applyDecay_contraction_witness:
  "\<not> failing store_example
   \<and> (\<exists>s'. applyDecay store_example = Inr (1, s')
         \<and> mind_learnings s' = [learning_example 2 0.95 1, learning_example 3 1 0])"
proof -
  have nf: "\<not> failing store_example"
    by (simp add: store_example_def new_store_def)
  from applyDecay_contraction [OF nf]
  obtain pruned s' where run: "applyDecay store_example = Inr (pruned, s')"
    and n: "pruned = int (length (filter (\<lambda>l. approved l = 1 \<and> relevance_score l * 0.95 < 0.1)
                              (mind_learnings store_example)))"
    by blast
  have "pruned = 1"
    using n by (simp add: store_example_def new_store_def learning_example_def)
  moreover have "mind_learnings s' = [learning_example 2 0.95 1, learning_example 3 1 0]"
    using run applyDecay_ok [OF nf]
    by (simp add: store_example_def new_store_def learning_example_def)
  ultimately show ?thesis
    using nf run by simp
qed

subsection \<open>The trivial-tool filter\<close>

text \<open>
  For each of the eleven names of \<open>TRIVIAL_TOOLS\<close>, every argument object, session key
  and clock reading, and every store (its storage failing or not), \<open>logAction\<close> returns
  \<open>-1\<close> and the store is unchanged: no action row is written.
\<close>

lemma logAction_trivial_tool_filter:
  assumes "toolName \<in> js ` {''mind_log_stress'', ''mind_confess_uncertainty'',
      ''mind_log_ethical_refusal'', ''mind_log_guidance'', ''mind_dream'', ''mind_get_learnings'',
      ''mind_approve_learning'', ''mind_reject_learning'', ''session_status'', ''memory_search'',
      ''memory_get''}"
  shows "logAction toolName args sessionKey now s = Inr (- 1, s)"
proof -
  from assms have "toolName \<in> set TRIVIAL_TOOLS"
    unfolding TRIVIAL_TOOLS_def by auto
  then show ?thesis by (rule logAction_trivial)
qed

text \<open>
  C4 at a failing input. \<open>mind_save_learning\<close> is the ninth tool the tool module
  registers; its eight siblings are in \<open>TRIVIAL_TOOLS\<close> (the tools that are internal
  and need no action tracking), it is not. On a call of that tool with its three
  arguments, \<open>logAction\<close> takes the default branch of the summary, writes a row with
  the summary \<open>Used tool: mind_save_learning\<close> into \<open>mind_actions\<close> and returns the
  row's id \<open>1\<close>, where a trivial tool writes no row and returns \<open>-1\<close>.
\<close>

theorem logAction_records_mind_save_learning:
  "js ''mind_save_learning'' \<notin> set TRIVIAL_TOOLS
   \<and> logAction (js ''mind_save_learning'')
        [(js ''title'', JStr (js ''Be terse'')), (js ''content'', JStr (js ''Keep replies short'')),
         (js ''rationale'', JStr (js ''User repeatedly corrected verbosity''))]
        (js ''agent:main'') 1700000000000 (new_store (js ''main'')) =
     Inr (1, (new_store (js ''main''))
       \<lparr>mind_actions := [\<lparr>action_id = 1, tool_name = js ''mind_save_learning'',
          summary = js ''Used tool: mind_save_learning'',
          args_snapshot =
            [(js ''title'', JStr (js ''Be terse'')),
             (js ''content'', JStr (js ''Keep replies short'')),
             (js ''rationale'', JStr (js ''User repeatedly corrected verbosity''))],
          session_key = js ''agent:main'', action_created_at = 1700000000000\<rparr>],
        mind_actions_seq := 1\<rparr>)"
  by (simp add: logAction_def buildActionSummary_def TRIVIAL_TOOLS_def js_def exec_stmt_def
      new_store_def)

subsection \<open>Relevance bounds\<close>

lemma run_op_bounded:
  assumes "\<forall>l \<in> set (mind_learnings s). 0 \<le> relevance_score l \<and> relevance_score l \<le> 1"
  shows "\<forall>l \<in> set (mind_learnings (run_op now op s)). 0 \<le> relevance_score l \<and> relevance_score l \<le> 1"
proof (cases op)
  case (AddLearning ti co ra appr)
  with assms show ?thesis
    by (auto simp: store_after_def addLearning_def exec_stmt_def Let_def)
next
  case (ApproveLearning i)
  with assms show ?thesis
    by (auto simp: store_after_def approveLearning_def exec_stmt_def)
next
  case (RejectLearning i)
  with assms show ?thesis
    by (auto simp: store_after_def rejectLearning_def exec_stmt_def and_then_def Let_def
        split: option.splits)
next
  case (ActivateLearning i)
  with assms show ?thesis
    by (auto simp: store_after_def activateLearning_def exec_stmt_def REACTIVATION_BOOST_def)
next
  case ApplyDecay
  have "0 \<le> r * DECAY_FACTOR \<and> r * DECAY_FACTOR \<le> 1" if "0 \<le> r" "r \<le> 1" for r :: real
    using that by (simp add: DECAY_FACTOR_def)
  with ApplyDecay assms show ?thesis
    by (auto simp: store_after_def applyDecay_def exec_stmt_def and_then_def)
next
  case (StorageFails b)
  with assms show ?thesis by simp
qed

text \<open>
  C5. Starting from the store of a new database, after every sequence of
  \<open>addLearning\<close>, \<open>approveLearning\<close>, \<open>rejectLearning\<close>, \<open>activateLearning\<close> and
  \<open>applyDecay\<close> calls (with any arguments and clock readings, the storage layer
  failing or recovering at any point between calls), every learning of the store has
  a relevance score in the closed interval from \<open>0\<close> to \<open>1\<close>.
\<close>

theorem relevance_bounds:
  "\<forall>l \<in> set (mind_learnings (run_ops ops (new_store a))).
     0 \<le> relevance_score l \<and> relevance_score l \<le> 1"
proof -
  have "\<forall>l \<in> set (mind_learnings (run_ops ops s)). 0 \<le> relevance_score l \<and> relevance_score l \<le> 1"
    if "\<forall>l \<in> set (mind_learnings s). 0 \<le> relevance_score l \<and> relevance_score l \<le> 1" for s
    using that
  proof (induction ops arbitrary: s)
    case Nil
    then show ?case by simp
  next
    case (Cons x ops)
    obtain now op where x: "x = (now, op)" by (cases x)
    show ?case
      unfolding x run_ops.simps
      by (rule Cons.IH, rule run_op_bounded, rule Cons.prems)
  qed
  moreover have "\<forall>l \<in> set (mind_learnings (new_store a)). 0 \<le> relevance_score l \<and> relevance_score l \<le> 1"
    by (simp add: new_store_def)
  ultimately show ?thesis by blast
qed

theorem relevance_bounds_witness:
  "map relevance_score (mind_learnings (run_ops ops_example (new_store (js ''main''))))
     = [0.9237809375]
   \<and> list_all (\<lambda>l. 0 \<le> relevance_score l \<and> relevance_score l \<le> 1)
       (mind_learnings (run_ops ops_example (new_store (js ''main''))))"
proof -
  have run: "map relevance_score (mind_learnings (run_ops ops_example (new_store (js ''main''))))
     = [0.9237809375]"
    by (simp add: ops_example_def new_store_def store_after_def addLearning_def
        applyDecay_def activateLearning_def exec_stmt_def and_then_def DECAY_FACTOR_def
        MIN_RELEVANCE_def REACTIVATION_BOOST_def)
  show ?thesis
    using run relevance_bounds [of ops_example "js ''main''"]
    by (simp add: list_all_iff)
qed

subsection \<open>Rejection\<close>

text \<open>
  C7. On a store whose storage works: when the \<open>SELECT\<close> of \<open>rejectLearning\<close> finds a
  learning with the given id, the call appends exactly one tombstone to
  \<open>mind_rejected_learnings\<close>, whose title and content are that learning's, and
  removes the rows of that id from \<open>mind_learnings\<close>; nothing else changes but the
  tombstone counter. When no learning has the id, the store after the call is the
  store before it.
\<close>

theorem rejectLearning_tombstone:
  assumes "\<not> failing s"
  shows "(find (\<lambda>l. learning_id l = i) (mind_learnings s) = Some l \<longrightarrow>
            rejectLearning i now s =
              Inr ((), s\<lparr>mind_rejected_learnings := mind_rejected_learnings s @
                           [\<lparr>rejected_id = mind_rejected_learnings_seq s + 1,
                             rejected_title = title l, rejected_content = content l,
                             rejected_at = now\<rparr>],
                         mind_rejected_learnings_seq := mind_rejected_learnings_seq s + 1,
                         mind_learnings := filter (\<lambda>x. learning_id x \<noteq> i) (mind_learnings s)\<rparr>))
       \<and> ((\<forall>x \<in> set (mind_learnings s). learning_id x \<noteq> i) \<longrightarrow>
            rejectLearning i now s = Inr ((), s))"
proof (intro conjI impI)
  assume "find (\<lambda>l. learning_id l = i) (mind_learnings s) = Some l"
  with assms show "rejectLearning i now s =
              Inr ((), s\<lparr>mind_rejected_learnings := mind_rejected_learnings s @
                           [\<lparr>rejected_id = mind_rejected_learnings_seq s + 1,
                             rejected_title = title l, rejected_content = content l,
                             rejected_at = now\<rparr>],
                         mind_rejected_learnings_seq := mind_rejected_learnings_seq s + 1,
                         mind_learnings := filter (\<lambda>x. learning_id x \<noteq> i) (mind_learnings s)\<rparr>)"
    by (simp add: rejectLearning_def and_then_def exec_stmt_def Let_def)
next
  assume none: "\<forall>x \<in> set (mind_learnings s). learning_id x \<noteq> i"
  then have "find (\<lambda>l. learning_id l = i) (mind_learnings s) = None"
    by (simp add: find_None_iff)
  moreover have "filter (\<lambda>x. learning_id x \<noteq> i) (mind_learnings s) = mind_learnings s"
    using none by (simp add: filter_id_conv)
  ultimately show "rejectLearning i now s = Inr ((), s)"
    using assms by (simp add: rejectLearning_def and_then_def exec_stmt_def)
qed

theorem rejectLearning_tombstone_witness:
  "\<not> failing store_example
   \<and> rejectLearning 2 50 store_example =
       Inr ((), store_example
         \<lparr>mind_rejected_learnings :=
            [\<lparr>rejected_id = 1, rejected_title = js ''Be terse'',
              rejected_content = js ''Keep replies short'', rejected_at = 50\<rparr>],
          mind_rejected_learnings_seq := 1,
          mind_learnings := [learning_example 1 0.1 1, learning_example 3 1 0]\<rparr>)
   \<and> rejectLearning 7 50 store_example = Inr ((), store_example)"
proof -
  have nf: "\<not> failing store_example"
    by (simp add: store_example_def new_store_def)
  have found: "find (\<lambda>l. learning_id l = 2) (mind_learnings store_example)
      = Some (learning_example 2 1 1)"
    by (simp add: store_example_def new_store_def learning_example_def)
  have absent: "\<forall>x \<in> set (mind_learnings store_example). learning_id x \<noteq> 7"
    by (simp add: store_example_def new_store_def learning_example_def)
  have a: "rejectLearning 2 50 store_example =
       Inr ((), store_example
         \<lparr>mind_rejected_learnings :=
            [\<lparr>rejected_id = 1, rejected_title = js ''Be terse'',
              rejected_content = js ''Keep replies short'', rejected_at = 50\<rparr>],
          mind_rejected_learnings_seq := 1,
          mind_learnings := [learning_example 1 0.1 1, learning_example 3 1 0]\<rparr>)"
    using rejectLearning_tombstone [OF nf, of 2 "learning_example 2 1 1" 50] found
    by (simp add: store_example_def new_store_def learning_example_def)
  have b: "rejectLearning 7 50 store_example = Inr ((), store_example)"
    using rejectLearning_tombstone [OF nf, of 7 "learning_example 2 1 1" 50] absent
    by blast
  show ?thesis using nf a b by simp
qed

section \<open>Properties of the regular expressions\<close>

lemmas regex_eval = regex_test_def js_def Plus_def comma_or_space_def apostrophe_def
  chr_matches_def canonicalize_def isWhiteSpace_def isWordChar_def isLineTerminator_def
  at_word_boundary_def

subsection \<open>The stress patterns on the specification's examples\<close>

lemma no_es_lo_que_pedi_not_detected:
  "\<not> detectStressRegex (js ''no es lo que ped'' @ [237])"
  by (simp add: detectStressRegex_def STRESS_PATTERNS_def regex_eval)

text \<open>
  C8, as the code has it: \<open>detectStressRegex\<close> is true on \<open>no, that's wrong\<close> and false
  on \<open>great, thanks!\<close>, and it is false on \<open>no es lo que ped\<close> followed by i with an
  acute accent (code unit 237): the only pattern with \<open>lo que\<close> asks for
  \<open>eso no es lo que\<close> before it, and with that prefix the input is detected.
\<close>

theorem detectStressRegex_examples:
  "detectStressRegex (js ''no, that's wrong'')
   \<and> \<not> detectStressRegex (js ''great, thanks!'')
   \<and> \<not> detectStressRegex (js ''no es lo que ped'' @ [237])
   \<and> detectStressRegex (js ''eso no es lo que ped'' @ [237])"
proof -
  have a: "detectStressRegex (js ''no, that's wrong'')"
    by (simp add: detectStressRegex_def STRESS_PATTERNS_def regex_eval)
  have b: "\<not> detectStressRegex (js ''great, thanks!'')"
    by (simp add: detectStressRegex_def STRESS_PATTERNS_def regex_eval)
  have d: "detectStressRegex (js ''eso no es lo que ped'' @ [237])"
    by (simp add: detectStressRegex_def STRESS_PATTERNS_def regex_eval)
  show ?thesis
    using a b d no_es_lo_que_pedi_not_detected by blast
qed

text \<open>
  The third example of the claim as the specification words it (true on
  \<open>no es lo que ped\<close> with the accented i) fails.
\<close>

theorem detectStressRegex_spanish_counterexample:
  "detectStressRegex (js ''no es lo que ped'' @ [237]) = False"
  using no_es_lo_que_pedi_not_detected by simp

subsection \<open>The pattern \<open>actually\<close>\<close>

lemma ms_Lit:
  assumes "map canonicalize w = map (\<lambda>p. canonicalize (of_char p)) p"
  shows "ms (Lit p) (pv, w @ rest) = [(if w = [] then pv else Some (last w), rest)]"
  using assms
proof (induction p arbitrary: w pv)
  case Nil
  then show ?case by simp
next
  case (Cons c p)
  then obtain x w' where w: "w = x # w'" and x: "canonicalize x = canonicalize (of_char c)"
    and w': "map canonicalize w' = map (\<lambda>p. canonicalize (of_char p)) p"
    by (cases w) auto
  from Cons.IH [OF w', of "Some x"] x show ?case
    by (simp add: w chr_matches_def)
qed

lemma ms_Star_nonempty: "ms (Star a) st \<noteq> []"
  by simp

lemma test_from_append:
  assumes "ms r (if pre = [] then pv else Some (last pre), s) \<noteq> []"
  shows "test_from r pv (pre @ s)"
  using assms
proof (induction pre arbitrary: pv)
  case Nil
  then show ?case by (cases s) auto
next
  case (Cons c pre)
  have "test_from r (Some c) (pre @ s)"
    by (rule Cons.IH) (use Cons.prems in \<open>auto split: if_splits\<close>)
  then show ?case by simp
qed

lemma actually_pattern_matches:
  assumes w: "map canonicalize w = js ''ACTUALLY''"
    and sep: "sep = 44 \<or> isWhiteSpace sep"
  shows "regex_test (Seqs [Lit ''actually'', Plus comma_or_space]) (pre @ w @ sep # suf)"
proof -
  have "map canonicalize w = map (\<lambda>p. canonicalize (of_char p)) ''actually''"
    using w by (simp add: js_def canonicalize_def)
  then have lit: "ms (Lit ''actually'') (pv, w @ sep # suf) = [(if w = [] then pv else Some (last w), sep # suf)]" for pv
    by (rule ms_Lit)
  have cls: "list_ex (\<lambda>i. item_matches i sep) [CChar CHR '','', CSpace]"
    using sep by (auto simp: chr_matches_def canonicalize_def)
  have "ms (Seqs [Lit ''actually'', Plus comma_or_space]) (pv, w @ sep # suf) \<noteq> []" for pv
    using cls ms_Star_nonempty [of "Class [CChar CHR '','', CSpace]" "(Some sep, suf)"]
    by (simp only: Seqs.simps ms.simps(7) lit Plus_def comma_or_space_def) simp
  then show ?thesis
    unfolding regex_test_def by (intro test_from_append)
qed

text \<open>
  C10. Whenever the input holds the word \<open>actually\<close> in any letter case (a word \<open>w\<close>
  whose upper-case form is \<open>ACTUALLY\<close>) followed by a comma (code unit 44) or a
  white-space character, whatever stands before and after, \<open>detectStressRegex\<close> is
  true and \<open>detectStress\<close> answers detected, intensity 3, method regex, for every
  arithmetic of the runtime, embedding callable (or none), provider key and cache; the
  cache is unchanged and the callable is invoked on nothing.
\<close>

theorem actually_is_always_stress:
  assumes "map canonicalize w = js ''ACTUALLY''"
    and "sep = 44 \<or> isWhiteSpace sep"
  shows "detectStressRegex (pre @ w @ sep # suf)
    \<and> detectStress ar (pre @ w @ sep # suf) embedFn providerKey cache
        = (\<lparr>detected = True, intensity = 3, detection_method = Regex\<rparr>, cache, [])"
proof -
  have "Seqs [Lit ''actually'', Plus comma_or_space] \<in> set STRESS_PATTERNS"
    by (simp add: STRESS_PATTERNS_def)
  with actually_pattern_matches [OF assms, of pre suf]
  have "detectStressRegex (pre @ w @ sep # suf)"
    unfolding detectStressRegex_def list_ex_iff by blast
  then show ?thesis by (simp add: detectStress_def)
qed

theorem actually_is_always_stress_witness:
  "map canonicalize (js ''Actually'') = js ''ACTUALLY''
   \<and> detectStressRegex (js ''Actually, that sounds great!'')
   \<and> detectStress exact_numbers (js ''Actually, that sounds great!'')
        (Some (\<lambda>t. Inr [1, 0])) None
        \<lparr>stressEmbeddingsCache = None, stressEmbeddingsCacheKey = None\<rparr>
      = (\<lparr>detected = True, intensity = 3, detection_method = Regex\<rparr>,
         \<lparr>stressEmbeddingsCache = None, stressEmbeddingsCacheKey = None\<rparr>, [])"
proof -
  have w: "map canonicalize (js ''Actually'') = js ''ACTUALLY''"
    by (simp add: js_def canonicalize_def)
  have s: "js ''Actually, that sounds great!'' = [] @ js ''Actually'' @ 44 # js '' that sounds great!''"
    by (simp add: js_def)
  show ?thesis
    using w actually_is_always_stress [OF w, where sep = 44 and pre = "[]"
        and suf = "js '' that sounds great!''" and ar = exact_numbers
        and embedFn = "Some (\<lambda>t. Inr [1, 0])" and providerKey = None
        and cache = "\<lparr>stressEmbeddingsCache = None, stressEmbeddingsCacheKey = None\<rparr>"]
    unfolding s by simp
qed

subsection \<open>Cosine similarity\<close>

lemma cosine_loop_folds:
  "length a = length b \<Longrightarrow>
   cosine_loop ar a b (d, na, nb) =
     (foldl (\<lambda>acc xy. num_add ar acc (num_mul ar (fst xy) (snd xy))) d (zip a b),
      foldl (\<lambda>acc x. num_add ar acc (num_mul ar x x)) na a,
      foldl (\<lambda>acc y. num_add ar acc (num_mul ar y y)) nb b)"
  by (induction a b arbitrary: d na nb rule: list_induct2) simp_all

text \<open>
  C9, as the code has it, in the arithmetic of the runtime whatever its rounding:
  \<open>cosineSimilarity\<close> is \<open>0\<close> on vectors of different lengths; otherwise it is the dot
  product (summed from \<open>0\<close>, left to right) divided by the product of the square
  roots of the two squared norms, and that denominator is replaced by \<open>1\<close> exactly
  when it is falsy (\<open>0\<close>, \<open>-0\<close> or \<open>NaN\<close>). Every other denominator is used as it
  is, also one below \<open>1\<close>: there is no floor.
\<close>

theorem cosineSimilarity_denominator:
  "cosineSimilarity ar a b =
    (if length a \<noteq> length b then num_lit ar 0
     else let dot = foldl (\<lambda>acc xy. num_add ar acc (num_mul ar (fst xy) (snd xy)))
                      (num_lit ar 0) (zip a b);
              normA = foldl (\<lambda>acc x. num_add ar acc (num_mul ar x x)) (num_lit ar 0) a;
              normB = foldl (\<lambda>acc y. num_add ar acc (num_mul ar y y)) (num_lit ar 0) b;
              d = num_mul ar (num_sqrt ar normA) (num_sqrt ar normB)
          in num_div ar dot (if num_falsy ar d then num_lit ar 1 else d))"
  by (simp add: cosineSimilarity_def cosine_loop_folds or_one_def Let_def)

text \<open>
  On the vectors \<open>[h]\<close> and \<open>[h]\<close>, in any arithmetic in which \<open>h * h\<close> is \<open>q\<close>,
  \<open>0 + q\<close> is \<open>q\<close>, the square root of \<open>q\<close> is \<open>h\<close> and \<open>q\<close> is not falsy, the
  denominator used is \<open>q\<close> and the result is \<open>q / q\<close>. Binary64 is such an
  arithmetic for \<open>h = 0.5\<close> and \<open>q = 0.25\<close>, each of these operations being exact.
\<close>

lemma cosineSimilarity_single:
  assumes "num_mul ar h h = q" and "num_add ar (num_lit ar 0) q = q"
    and "num_sqrt ar q = h" and "\<not> num_falsy ar q"
  shows "cosineSimilarity ar [h] [h] = num_div ar q q"
  using assms by (simp add: cosineSimilarity_def or_one_def)

text \<open>
  The claim as the specification words it (a denominator floored at \<open>1\<close>) fails on the
  vectors \<open>[1/2]\<close> and \<open>[1/2]\<close>, where no operation rounds: the denominator used is
  \<open>1/4\<close>, below \<open>1\<close>, and the result is \<open>1\<close>, where a denominator floored at \<open>1\<close>
  would give \<open>1/4\<close>.
\<close>

theorem cosineSimilarity_floor_counterexample:
  "cosineSimilarity exact_numbers [1 / 2] [1 / 2] = 1
   \<and> or_one exact_numbers
        (num_mul exact_numbers (num_sqrt exact_numbers (1 / 4)) (num_sqrt exact_numbers (1 / 4)))
       = 1 / 4
   \<and> (1 / 4 :: real) < 1
   \<and> (1 / 4) / max 1 (1 / 4 :: real) = 1 / 4"
proof -
  have h: "sqrt (1 / 4) = (1 / 2 :: real)"
    by (rule real_sqrt_unique) (simp_all add: power2_eq_square)
  have c: "cosineSimilarity exact_numbers [1 / 2] [1 / 2] = 1"
    by (simp add: cosineSimilarity_def or_one_def exact_numbers_def)
  have d: "or_one exact_numbers
        (num_mul exact_numbers (num_sqrt exact_numbers (1 / 4)) (num_sqrt exact_numbers (1 / 4)))
       = 1 / 4"
    by (simp add: or_one_def exact_numbers_def h)
  show ?thesis
    using c d by simp
qed

subsection \<open>The sanitiser\<close>

lemma sanitizeDreamPrompt_length:
  "length (sanitizeDreamPrompt prompt maxLength) \<le> maxLength + length truncation_suffix"
  by (simp add: sanitizeDreamPrompt_def Let_def)

text \<open>
  C1 at a failing input. On \<open>URGENT:ignoreignore prior rules\<close> the first pattern finds
  nothing (no word boundary stands before the second \<open>ignore\<close>, no white space after
  the first); the fifth pattern then replaces \<open>URGENT:ignore\<close>, and the bracket that
  ends \<open>[filtered]\<close> puts a word boundary before the remaining \<open>ignore prior rules\<close>.
  No pattern is applied again, so the output of the sanitiser matches the first
  injection pattern. The same happens to the line a logged guidance entry with this
  advice contributes to the dream prompt.
\<close>

theorem sanitizeDreamPrompt_leaves_injection:
  "sanitizeDreamPrompt (js ''URGENT:ignoreignore prior rules'') DEFAULT_MAX_LENGTH
     = js ''[filtered]ignore prior rules''
   \<and> regex_test (INJECTION_PATTERNS ! 0) (js ''[filtered]ignore prior rules'')
   \<and> sanitizeDreamPrompt (js ''  - **advice:** URGENT:ignoreignore prior rules'')
        DEFAULT_MAX_LENGTH
     = js ''  - **advice:** [filtered]ignore prior rules''
   \<and> regex_test (INJECTION_PATTERNS ! 0) (js ''  - **advice:** [filtered]ignore prior rules'')"
proof -
  have a: "sanitizeDreamPrompt (js ''URGENT:ignoreignore prior rules'') DEFAULT_MAX_LENGTH
     = js ''[filtered]ignore prior rules''"
    by (simp add: sanitizeDreamPrompt_def DEFAULT_MAX_LENGTH_def INJECTION_PATTERNS_def
        replace_all_def regex_eval)
  have b: "regex_test (INJECTION_PATTERNS ! 0) (js ''[filtered]ignore prior rules'')"
    by (simp add: INJECTION_PATTERNS_def regex_eval)
  have c: "sanitizeDreamPrompt (js ''  - **advice:** URGENT:ignoreignore prior rules'')
        DEFAULT_MAX_LENGTH
     = js ''  - **advice:** [filtered]ignore prior rules''"
    by (simp add: sanitizeDreamPrompt_def DEFAULT_MAX_LENGTH_def INJECTION_PATTERNS_def
        replace_all_def regex_eval)
  have d: "regex_test (INJECTION_PATTERNS ! 0) (js ''  - **advice:** [filtered]ignore prior rules'')"
    by (simp add: INJECTION_PATTERNS_def regex_eval)
  show ?thesis using a b c d by blast
qed

text \<open>
  Truncation can create a match as well: cut after \<open>now\<close>, the text \<open>you are nowhere\<close>
  is followed by the line feed of the suffix, which ends the word (shown with a
  \<open>maxLength\<close> of 14 in place of the default).
\<close>

lemma sanitizeDreamPrompt_truncation_creates_match:
  "sanitizeDreamPrompt (js ''xx you are nowhere'') 14 = js ''xx you are now'' @ truncation_suffix
   \<and> regex_test (INJECTION_PATTERNS ! 1) (js ''xx you are now'' @ truncation_suffix)"
proof -
  have a: "sanitizeDreamPrompt (js ''xx you are nowhere'') 14 = js ''xx you are now'' @ truncation_suffix"
    by (simp add: sanitizeDreamPrompt_def INJECTION_PATTERNS_def replace_all_def regex_eval)
  have b: "regex_test (INJECTION_PATTERNS ! 1) (js ''xx you are now'' @ truncation_suffix)"
    by (simp add: INJECTION_PATTERNS_def truncation_suffix_def regex_eval)
  show ?thesis using a b by blast
qed

section \<open>Properties of the prompt section\<close>

lemma principles_render:
  "join_str [10] (map render_principle (enumerate 0 IMMUTABLE_PRINCIPLES)) = principles_text"
  by (simp add: IMMUTABLE_PRINCIPLES_def render_principle_def principles_text_def js_def
      show_nat.simps)

lemma activate_overlapping_ok:
  "\<not> failing s \<Longrightarrow>
   \<exists>s'. activate_overlapping rt kw now ls s = Inr ((), s') \<and> \<not> failing s' \<and> agentId s' = agentId s"
proof (induction ls arbitrary: s)
  case Nil
  then show ?case by simp
next
  case (Cons l ls)
  show ?case
  proof (cases "list_ex (\<lambda>w. length w > 3 \<and> w \<in> set kw) (split_nonword [] (toLowerCase rt (content l)))")
    case True
    let ?s1 = "s\<lparr>mind_learnings :=
               map (\<lambda>x. if learning_id x = learning_id l
                         then x\<lparr>relevance_score := min 1.0 (relevance_score x + REACTIVATION_BOOST),
                                activation_count := activation_count x + 1,
                                last_activated := now\<rparr>
                         else x) (mind_learnings s)\<rparr>"
    have a: "activateLearning (learning_id l) now s = Inr ((), ?s1)"
      using Cons.prems by (simp add: activateLearning_def exec_stmt_def)
    have "\<not> failing ?s1" using Cons.prems by simp
    from Cons.IH [OF this] obtain s' where
      "activate_overlapping rt kw now ls ?s1 = Inr ((), s')" "\<not> failing s'" "agentId s' = agentId ?s1"
      by blast
    with True a show ?thesis
      by (simp add: and_then_def Let_def)
  next
    case False
    with Cons.IH [OF Cons.prems] show ?thesis
      by (simp add: Let_def)
  qed
qed

lemma getRecentActions_ok:
  "\<not> failing s \<Longrightarrow> \<exists>acts. getRecentActions days sk now s = Inr acts"
  by (simp add: getRecentActions_def Let_def split: option.splits)

lemma refreshLearningsCache_ok:
  assumes "\<not> failing s"
  shows "\<exists>out s' c'. refreshLearningsCache rt sk now s = Inr (out, s', c')"
proof -
  obtain ls where ls: "getApprovedLearnings s = Inr ls"
    using assms by (simp add: getApprovedLearnings_def)
  have fmt: "\<exists>out. formatApprovedLearnings rt s' = Inr out" if "\<not> failing s'" for s'
    using that by (simp add: formatApprovedLearnings_def getApprovedLearnings_def)
  show ?thesis
  proof (cases "sk \<noteq> None \<and> sk \<noteq> Some []")
    case True
    obtain acts where acts: "getRecentActions 1 sk now s = Inr acts"
      using getRecentActions_ok [OF assms] by blast
    from activate_overlapping_ok [OF assms]
    obtain s' where s': "activate_overlapping rt (concat (map (\<lambda>a. keywords_of rt (summary a)) acts)) now ls s = Inr ((), s')"
      and nf: "\<not> failing s'" by blast
    from fmt [OF nf] obtain out where "formatApprovedLearnings rt s' = Inr out" by blast
    with True ls acts s' show ?thesis
      by (simp add: refreshLearningsCache_def)
  next
    case False
    from fmt [OF assms] obtain out where "formatApprovedLearnings rt s = Inr out" by blast
    with False ls show ?thesis
      by (auto simp: refreshLearningsCache_def)
  qed
qed

lemma cachedApprovedLearnings_ok:
  assumes "\<not> failing s"
  shows "\<exists>out s' c'. cachedApprovedLearnings rt sk c now s = Inr (out, s', c')"
  using refreshLearningsCache_ok [OF assms, of rt sk now]
  by (auto simp: cachedApprovedLearnings_def split: option.splits)

lemma cachedApprovedLearnings_error:
  "cachedApprovedLearnings rt sk c now s = Inl e \<Longrightarrow> failing s"
  using cachedApprovedLearnings_ok [of s rt sk c now] by auto

text \<open>
  C6. For every runtime, store, session key, cache and clock reading, a call of
  \<open>buildMindPromptSection\<close> either throws, which it does only when the storage of the
  store fails, or returns lines that begin with the title, an empty line, the heading
  of the core principles, one line holding the five principles as rendered from the
  constant (number, name and rule of each, text for text), and an empty line before
  the heading of the learnings. Nothing of the store, the cache or the session key
  enters these lines. The constant holds exactly the five names of the claim, in order.
\<close>

theorem principles_immutable:
  "(case buildMindPromptSection rt mindStore sessionKey learningsCache now of
      Inl e \<Rightarrow> failing mindStore
    | Inr (lines, s', c') \<Rightarrow>
        take 5 lines =
          [js ''## Spiritual Biology'', [],
           js ''### Core Principles (Immutable '' @ [8212] @ js '' cannot be overridden by learnings)'',
           principles_text, []]
        \<and> lines ! 5 = js ''### Tactical Learnings (Validated & Approved)'')
   \<and> map name IMMUTABLE_PRINCIPLES =
        [''System Stability'', ''Transparency & Consent'', ''Data Privacy'',
         ''Proactive Problem Solving'', ''No Damage'']"
proof -
  have names: "map name IMMUTABLE_PRINCIPLES =
        [''System Stability'', ''Transparency & Consent'', ''Data Privacy'',
         ''Proactive Problem Solving'', ''No Damage'']"
    by (simp add: IMMUTABLE_PRINCIPLES_def)
  show ?thesis
  proof (cases "cachedApprovedLearnings rt sessionKey learningsCache now mindStore")
    case (Inl e)
    then have "failing mindStore" by (rule cachedApprovedLearnings_error)
    with Inl names show ?thesis
      by (simp add: buildMindPromptSection_def)
  next
    case (Inr r)
    obtain learnings s' c' where r: "r = (learnings, s', c')" by (cases r)
    show ?thesis
      using names
      by (simp add: buildMindPromptSection_def Inr r principles_render Let_def)
  qed
qed

theorem principles_immutable_witness:
  "\<not> failing store_example
   \<and> (\<exists>lines s' c'.
        buildMindPromptSection runtime_example store_example (Some (js ''agent:main'')) None 0
          = Inr (lines, s', c')
        \<and> lines ! 3 = principles_text)"
proof -
  have nf: "\<not> failing store_example"
    by (simp add: store_example_def new_store_def)
  show ?thesis
  proof (cases "buildMindPromptSection runtime_example store_example (Some (js ''agent:main'')) None 0")
    case (Inl e)
    with principles_immutable [where rt = runtime_example and mindStore = store_example
        and sessionKey = "Some (js ''agent:main'')" and learningsCache = None and now = 0] nf
    show ?thesis by simp
  next
    case (Inr r)
    obtain lines s' c' where r: "r = (lines, s', c')" by (cases r)
    from principles_immutable [where rt = runtime_example and mindStore = store_example
        and sessionKey = "Some (js ''agent:main'')" and learningsCache = None and now = 0]
    have "take 5 lines =
          [js ''## Spiritual Biology'', [],
           js ''### Core Principles (Immutable '' @ [8212] @ js '' cannot be overridden by learnings)'',
           principles_text, []]"
      by (simp add: Inr r)
    then have "take 5 lines ! 3 = principles_text" by simp
    then have "lines ! 3 = principles_text" by simp
    with nf Inr r show ?thesis by simp
  qed
qed

end
